theory Spec2Isabelle
  imports Complex_Main
begin

section \<open>Beam Analysis Tool: numbers, console and exceptions\<close>

text \<open>
  The program works on Python floats. The definitions that carry the source's names
  embed them as \<^typ>\<open>real\<close>: statements about them are about exact arithmetic over
  finite values, with no rounding, overflow, \<open>inf\<close> or \<open>nan\<close>. Python raises
  \<open>ZeroDivisionError\<close> when a float is divided by zero, where HOL returns \<open>0\<close>, so
  each scalar division of the source checks its divisor first. Where a statement depends
  on the rounding of the doubles themselves, the source lines it is about are embedded a
  second time over a model of IEEE 754 binary64, under names that start with \<open>fl_\<close>.

  The program talks to a console and to matplotlib. The console input is a list of
  lines still to be read, the output is the list of events produced so far, in order.
\<close>

datatype exn = EOFError | ValueError | TypeError | ZeroDivisionError | UnboundLocalError | OverflowError

text \<open>
  A line typed by the user, by what \<open>int(...)\<close> and \<open>float(...)\<close> make of it:
  \<open>IntLine n\<close> is accepted by both (\<open>"3"\<close>), \<open>FloatLine r\<close> by \<open>float\<close> only
  (\<open>"2.5"\<close>, \<open>"1e3"\<close>), \<open>OtherLine\<close> by neither (both raise \<open>ValueError\<close>).
\<close>

datatype line = IntLine int | FloatLine real | OtherLine

fun py_int :: "line \<Rightarrow> exn + int" where
  "py_int (IntLine n) = Inr n"
| "py_int (FloatLine r) = Inl ValueError"
| "py_int OtherLine = Inl ValueError"

fun py_float :: "line \<Rightarrow> exn + real" where
  "py_float (IntLine n) = Inr (real_of_int n)"
| "py_float (FloatLine r) = Inr r"
| "py_float OtherLine = Inl ValueError"

text \<open>The prompts of \<open>main\<close>, in the order of the source (lines 284 to 340).\<close>

datatype prompt =
    AskLength | AskLengthUnits
  | AskE | AskEUnits
  | AskI | AskIUnits
  | AskLoadType
  | AskP | AskPUnits
  | AskPosition | AskPositionUnits
  | AskIntensity | AskIntensityUnits

text \<open>
  The \<open>print\<close> statements of the source, one constructor for each text; the formatted
  ones carry the numbers they print.
\<close>

datatype msg =
    MsgInvalidChoice                \<comment> \<open>"Invalid choice. Try again."\<close>
  | MsgEnterValidNumber             \<comment> \<open>"Enter a valid number."\<close>
  | MsgMustBePositive               \<comment> \<open>"Value must be greater than zero."\<close>
  | MsgTitle                        \<comment> \<open>"Beam Analysis Tool"\<close>
  | MsgNote                         \<comment> \<open>"NOTE : All calculations are performed in SI units."\<close>
  | MsgBeamProperties               \<comment> \<open>"---Beam Properties---"\<close>
  | MsgInertiaWarning               \<comment> \<open>"WARNING : Moment of Inertia is extremely small check units."\<close>
  | MsgLoadingProperties            \<comment> \<open>"---Loading Properties---"\<close>
  | MsgInvalidPosition              \<comment> \<open>"Invalid Load Position. Load must lie between 0 and Beam Length."\<close>
  | MsgReactionForces               \<comment> \<open>"---Reaction Forces---"\<close>
  | MsgLeftReaction real            \<comment> \<open>"Left Reaction  = ... N"\<close>
  | MsgRightReaction real           \<comment> \<open>"Right Reaction = ... N"\<close>
  | MsgNegligible                   \<comment> \<open>"Maximum Deflection is negligible under the given loading conditions."\<close>
  | MsgExceedsLimit                 \<comment> \<open>"WARNING : Deflection exceeds typical serviceability limits (L/250). ..."\<close>
  | MsgResult                       \<comment> \<open>"----RESULT---"\<close>
  | MsgMaximumDeflection real real  \<comment> \<open>"Maximum Deflection : ... m ... mm"\<close>
  | MsgInvalidSelection             \<comment> \<open>"Invalid Selection. Please Restart the Programme."\<close>
  | MsgAnalysisComplete             \<comment> \<open>"Analysis Complete."\<close>

text \<open>
  What a plotting function hands to matplotlib before \<open>plt.show()\<close>: the title, the two
  plotted arrays, the unit in the x label, and the \<open>scatter\<close> marker of the point-load
  deflection curve.
\<close>

datatype diagram =
    ShearPoint | MomentPoint | DeflectionPoint
  | ShearUDL | MomentUDL | DeflectionUDL

record figure =
  fig_title :: diagram
  fig_x :: "real list"
  fig_y :: "real list"
  fig_unit :: string
  fig_marker :: "(real \<times> real) option"

datatype event = Ask prompt | Print msg | Show figure

record world =
  inp :: "line list"
  out :: "event list"

type_synonym 'a io = "world \<Rightarrow> (exn + 'a) \<times> world"

definition console :: "line list \<Rightarrow> world" where
  "console ls = \<lparr>inp = ls, out = []\<rparr>"

definition emit :: "event \<Rightarrow> world \<Rightarrow> world" where
  "emit e s = s\<lparr>out := out s @ [e]\<rparr>"

definition io_return :: "'a \<Rightarrow> 'a io" where
  "io_return x s = (Inr x, s)"

definition io_raise :: "exn \<Rightarrow> 'a io" where
  "io_raise e s = (Inl e, s)"

text \<open>Sequencing: an exception of the first action skips the rest.\<close>

definition io_bind :: "'a io \<Rightarrow> ('a \<Rightarrow> 'b io) \<Rightarrow> 'b io" where
  "io_bind m f s = (case m s of (Inl e, s') \<Rightarrow> (Inl e, s') | (Inr x, s') \<Rightarrow> f x s')"

definition io_then :: "unit io \<Rightarrow> 'b io \<Rightarrow> 'b io" where
  "io_then m k = io_bind m (\<lambda>_. k)"

definition print :: "msg \<Rightarrow> unit io" where
  "print m s = (Inr (), emit (Print m) s)"

definition plt_show :: "figure \<Rightarrow> unit io" where
  "plt_show f s = (Inr (), emit (Show f) s)"

text \<open>A value that is \<open>None\<close> in Python raises \<open>TypeError\<close> where it is used as a number.\<close>

definition number :: "'a option \<Rightarrow> 'a io" where
  "number v = (case v of None \<Rightarrow> io_raise TypeError | Some x \<Rightarrow> io_return x)"

section \<open>Safeguards (lines 24 to 42)\<close>

text \<open>
  \<open>choice_input\<close> and \<open>positive_float\<close> loop until a line is accepted. Each round
  writes the prompt and consumes one line, so the loops are recursions on the lines
  left; at the end of the input \<open>input\<close> raises \<open>EOFError\<close>, which neither catches.
\<close>

fun choice_input_loop :: "prompt \<Rightarrow> int list \<Rightarrow> line list \<Rightarrow> event list \<Rightarrow> (exn + int) \<times> world" where
  "choice_input_loop p valid_choices [] evs = (Inl EOFError, \<lparr>inp = [], out = evs @ [Ask p]\<rparr>)"
| "choice_input_loop p valid_choices (l # ls) evs =
     (case py_int l of
        Inr v \<Rightarrow>
          if v \<in> set valid_choices then (Inr v, \<lparr>inp = ls, out = evs @ [Ask p]\<rparr>)
          else choice_input_loop p valid_choices ls (evs @ [Ask p, Print MsgInvalidChoice])
      | Inl e \<Rightarrow> choice_input_loop p valid_choices ls (evs @ [Ask p, Print MsgEnterValidNumber]))"

definition choice_input :: "prompt \<Rightarrow> int list \<Rightarrow> int io" where
  "choice_input p valid_choices s = choice_input_loop p valid_choices (inp s) (out s)"

fun positive_float_loop :: "prompt \<Rightarrow> line list \<Rightarrow> event list \<Rightarrow> (exn + real) \<times> world" where
  "positive_float_loop p [] evs = (Inl EOFError, \<lparr>inp = [], out = evs @ [Ask p]\<rparr>)"
| "positive_float_loop p (l # ls) evs =
     (case py_float l of
        Inr v \<Rightarrow>
          if v > 0 then (Inr v, \<lparr>inp = ls, out = evs @ [Ask p]\<rparr>)
          else positive_float_loop p ls (evs @ [Ask p, Print MsgMustBePositive])
      | Inl e \<Rightarrow> positive_float_loop p ls (evs @ [Ask p, Print MsgEnterValidNumber]))"

definition positive_float :: "prompt \<Rightarrow> real io" where
  "positive_float p s = positive_float_loop p (inp s) (out s)"

text \<open>\<open>float(input(prompt))\<close> with no \<open>try\<close> around it (lines 309 and 313).\<close>

definition float_input :: "prompt \<Rightarrow> real io" where
  "float_input p s =
     (case inp s of
        [] \<Rightarrow> (Inl EOFError, emit (Ask p) s)
      | l # ls \<Rightarrow> (py_float l, \<lparr>inp = ls, out = out s @ [Ask p]\<rparr>))"

section \<open>Helper and unit conversion functions (lines 48 to 88)\<close>

text \<open>
  Each function falls off its \<open>if\<close>/\<open>elif\<close> chain for any other unit code and then
  returns \<open>None\<close>.
\<close>

definition axis_length :: "real list \<Rightarrow> int \<Rightarrow> (real list \<times> string) option" where
  "axis_length x unit =
     (if unit = 1 then Some (x, ''m'')
      else if unit = 2 then Some (map (\<lambda>xi. xi * 1000) x, ''mm'')
      else if unit = 3 then Some (map (\<lambda>xi. xi * 100) x, ''cm'')
      else None)"

definition convert_length :: "real \<Rightarrow> int \<Rightarrow> real option" where
  "convert_length v unit =
     (if unit = 1 then Some v
      else if unit = 2 then Some (v / 1000)
      else if unit = 3 then Some (v / 100)
      else None)"

definition convert_E :: "real \<Rightarrow> int \<Rightarrow> real option" where
  "convert_E v unit =
     (if unit = 1 then Some (v * 10 ^ 9)
      else if unit = 2 then Some (v * 10 ^ 6)
      else None)"

definition convert_I :: "real \<Rightarrow> int \<Rightarrow> real option" where
  "convert_I v unit =
     (if unit = 1 then Some (v * (1 / 10 ^ 12))
      else if unit = 2 then Some v
      else None)"

definition convert_load :: "real \<Rightarrow> int \<Rightarrow> real option" where
  "convert_load v unit =
     (if unit = 1 then Some v
      else if unit = 2 then Some (v * 1000)
      else None)"

definition convert_udl :: "real \<Rightarrow> int \<Rightarrow> real option" where
  "convert_udl v unit =
     (if unit = 1 then Some v
      else if unit = 2 then Some (v * 1000)
      else None)"

section \<open>Physics functions (lines 92 to 101)\<close>

definition point_load_ssb :: "real \<Rightarrow> real \<Rightarrow> real \<Rightarrow> real \<Rightarrow> real \<Rightarrow> exn + real" where
  "point_load_ssb P L E I a =
     (let b = L - a in
      if 6 * E * I * L = 0 then Inl ZeroDivisionError
      else Inr ((P * a * b * (L ^ 2 - a ^ 2 - b ^ 2)) / (6 * E * I * L)))"

definition udl_ssb :: "real \<Rightarrow> real \<Rightarrow> real \<Rightarrow> real \<Rightarrow> exn + real" where
  "udl_ssb w L E I =
     (if 384 * E * I = 0 then Inl ZeroDivisionError
      else Inr ((5 * w * (L ^ 4)) / (384 * E * I)))"

section \<open>Reaction forces (lines 186 to 204)\<close>

definition reactions_point_load :: "real \<Rightarrow> real \<Rightarrow> real \<Rightarrow> (real \<times> real) io" where
  "reactions_point_load P L a =
     (let b = L - a in
      if L = 0 then io_raise ZeroDivisionError
      else
        let R1 = P * b / L; R2 = P * a / L in
        io_then (print MsgReactionForces)
       (io_then (print (MsgLeftReaction R1))
       (io_then (print (MsgRightReaction R2))
       (io_return (R1, R2)))))"

definition reactions_udl :: "real \<Rightarrow> real \<Rightarrow> (real \<times> real) io" where
  "reactions_udl w L =
     (let R = w * L / 2 in
      io_then (print MsgReactionForces)
     (io_then (print (MsgLeftReaction R))
     (io_then (print (MsgRightReaction R))
     (io_return (R, R)))))"

section \<open>Sampling and the curves behind the diagrams (lines 105 to 272)\<close>

text \<open>
  \<open>np.linspace(start, stop, num)\<close> with the default \<open>endpoint=True\<close>: the samples are
  \<open>start + i * step\<close> with \<open>step = (stop - start) / (num - 1)\<close>, and numpy then writes
  \<open>stop\<close> itself into the last place.
\<close>

definition linspace :: "real \<Rightarrow> real \<Rightarrow> nat \<Rightarrow> real list" where
  "linspace start stop num =
     (if num = 0 then []
      else if num = 1 then [start]
      else map (\<lambda>i. start + real i * ((stop - start) / real (num - 1))) [0..<num - 1] @ [stop])"

text \<open>
  The array expressions of the plotting functions, for one element \<open>x\<close> of the sample
  array. \<open>np.where(x < a, u, v)\<close> and the pair of masks \<open>x < a\<close>, \<open>x >= a\<close> over a
  zero array are both the elementwise \<open>if x < a then u else v\<close>. The divisions are
  numpy's, which do not raise.
\<close>

definition y_point :: "real \<Rightarrow> real \<Rightarrow> real \<Rightarrow> real \<Rightarrow> real \<Rightarrow> real \<Rightarrow> real" where
  "y_point P L E I a x =
     (let b = L - a in
      if x < a then (P * b * x / (6 * L * E * I)) * (L ^ 2 - b ^ 2 - x ^ 2)
      else (P * a * (L - x) / (6 * L * E * I)) * (L ^ 2 - a ^ 2 - (L - x) ^ 2))"

definition y_udl :: "real \<Rightarrow> real \<Rightarrow> real \<Rightarrow> real \<Rightarrow> real \<Rightarrow> real" where
  "y_udl w L E I x = (w * x * (L ^ 3 - 2 * L * (x ^ 2) + x ^ 3)) / (24 * E * I)"

definition V_point :: "real \<Rightarrow> real \<Rightarrow> real \<Rightarrow> real \<Rightarrow> real" where
  "V_point R1 P a x = (if x < a then R1 else R1 - P)"

definition M_point :: "real \<Rightarrow> real \<Rightarrow> real \<Rightarrow> real \<Rightarrow> real" where
  "M_point R1 P a x = (if x < a then R1 * x else R1 * x - P * (x - a))"

definition V_udl :: "real \<Rightarrow> real \<Rightarrow> real \<Rightarrow> real" where
  "V_udl w L x = (let R = w * L / 2 in R - w * x)"

definition M_udl :: "real \<Rightarrow> real \<Rightarrow> real \<Rightarrow> real" where
  "M_udl w L x = (let R = w * L / 2 in R * x - (w * x ^ 2) / 2)"

text \<open>Python's \<open>min\<close> over the elements of an array; it raises on an empty one.\<close>

fun py_min :: "real list \<Rightarrow> exn + real" where
  "py_min [] = Inl ValueError"
| "py_min (y # ys) = Inr (fold min ys y)"

definition io_of :: "exn + 'a \<Rightarrow> 'a io" where
  "io_of r s = (r, s)"

text \<open>
  The deflection plots choose \<open>x_plot\<close> and the label by their own \<open>if\<close>/\<open>elif\<close>
  chain; for any other unit code the names stay unbound and \<open>plt.plot\<close> is reached with
  \<open>UnboundLocalError\<close>. The other four call \<open>axis_length\<close> and fail to unpack \<open>None\<close>.
\<close>

definition plot_point_load_ssb :: "real \<Rightarrow> real \<Rightarrow> real \<Rightarrow> real \<Rightarrow> real \<Rightarrow> int \<Rightarrow> unit io" where
  "plot_point_load_ssb P L E I a Lunits =
     (let x = linspace 0 L 400;
          y = map (y_point P L E I a) x;
          y_plot = map (\<lambda>yi. yi * 1000) y
      in
      if Lunits \<noteq> 1 \<and> Lunits \<noteq> 2 \<and> Lunits \<noteq> 3 then io_raise UnboundLocalError
      else
        let x_plot = (if Lunits = 1 then x
                      else if Lunits = 2 then map (\<lambda>xi. xi * 1000) x
                      else map (\<lambda>xi. xi * 100) x);
            length_label = (if Lunits = 1 then ''m'' else if Lunits = 2 then ''mm'' else ''cm'');
            load_x = (if Lunits = 2 then a * 1000 else if Lunits = 3 then a * 100 else a)
        in
        io_bind (io_of (py_min y_plot)) (\<lambda>lowest.
        plt_show \<lparr>fig_title = DeflectionPoint, fig_x = x_plot, fig_y = y_plot,
                  fig_unit = length_label, fig_marker = Some (load_x, lowest)\<rparr>))"

definition plot_udl_ssb :: "real \<Rightarrow> real \<Rightarrow> real \<Rightarrow> real \<Rightarrow> int \<Rightarrow> unit io" where
  "plot_udl_ssb w L E I Lunits =
     (let x = linspace 0 L 400;
          y = map (y_udl w L E I) x;
          y_plot = map (\<lambda>yi. yi * 1000) y
      in
      if Lunits \<noteq> 1 \<and> Lunits \<noteq> 2 \<and> Lunits \<noteq> 3 then io_raise UnboundLocalError
      else
        let x_plot = (if Lunits = 1 then x
                      else if Lunits = 2 then map (\<lambda>xi. xi * 1000) x
                      else map (\<lambda>xi. xi * 100) x);
            length_label = (if Lunits = 1 then ''m'' else if Lunits = 2 then ''mm'' else ''cm'')
        in
        plt_show \<lparr>fig_title = DeflectionUDL, fig_x = x_plot, fig_y = y_plot,
                  fig_unit = length_label, fig_marker = None\<rparr>)"

definition plot_sfd_point :: "real \<Rightarrow> real \<Rightarrow> real \<Rightarrow> real \<Rightarrow> int \<Rightarrow> unit io" where
  "plot_sfd_point R1 P a L Lunits =
     (let x = linspace 0 L 400 in
      case axis_length x Lunits of
        None \<Rightarrow> io_raise TypeError
      | Some (x_plot, length_label) \<Rightarrow>
          let V = map (V_point R1 P a) x in
          plt_show \<lparr>fig_title = ShearPoint, fig_x = x_plot, fig_y = V,
                    fig_unit = length_label, fig_marker = None\<rparr>)"

definition plot_bmd_point :: "real \<Rightarrow> real \<Rightarrow> real \<Rightarrow> real \<Rightarrow> int \<Rightarrow> unit io" where
  "plot_bmd_point R1 P a L Lunits =
     (let x = linspace 0 L 400 in
      case axis_length x Lunits of
        None \<Rightarrow> io_raise TypeError
      | Some (x_plot, length_label) \<Rightarrow>
          let M = map (M_point R1 P a) x in
          plt_show \<lparr>fig_title = MomentPoint, fig_x = x_plot, fig_y = M,
                    fig_unit = length_label, fig_marker = None\<rparr>)"

definition plot_sfd_udl :: "real \<Rightarrow> real \<Rightarrow> int \<Rightarrow> unit io" where
  "plot_sfd_udl w L Lunits =
     (let x = linspace 0 L 400 in
      case axis_length x Lunits of
        None \<Rightarrow> io_raise TypeError
      | Some (x_plot, length_label) \<Rightarrow>
          let V = map (V_udl w L) x in
          plt_show \<lparr>fig_title = ShearUDL, fig_x = x_plot, fig_y = V,
                    fig_unit = length_label, fig_marker = None\<rparr>)"

definition plot_bmd_udl :: "real \<Rightarrow> real \<Rightarrow> int \<Rightarrow> unit io" where
  "plot_bmd_udl w L Lunits =
     (let x = linspace 0 L 400 in
      case axis_length x Lunits of
        None \<Rightarrow> io_raise TypeError
      | Some (x_plot, length_label) \<Rightarrow>
          let M = map (M_udl w L) x in
          plt_show \<lparr>fig_title = MomentUDL, fig_x = x_plot, fig_y = M,
                    fig_unit = length_label, fig_marker = None\<rparr>)"

section \<open>The main program (lines 276 to 364)\<close>

definition NEGLIGIBLE_DEFLECTION :: real where
  "NEGLIGIBLE_DEFLECTION = 1 / 1000"

text \<open>Line 306: the allowable deflection in mm, from the span in m.\<close>

definition LIMIT_of :: "real \<Rightarrow> real" where
  "LIMIT_of L = L * 1000 / 250"

text \<open>The \<open>if\<close>/\<open>elif\<close> of lines 326 to 329 (point load).\<close>

definition serviceability_point :: "real \<Rightarrow> real \<Rightarrow> unit io" where
  "serviceability_point actual_deflection LIMIT =
     (if actual_deflection < NEGLIGIBLE_DEFLECTION then print MsgNegligible
      else if actual_deflection > LIMIT then print MsgExceedsLimit
      else io_return ())"

text \<open>
  The \<open>if\<close>/\<open>elif\<close> of lines 348 to 353 (UDL); its second branch also prints the
  result, which line 355 then prints again.
\<close>

definition serviceability_udl :: "real \<Rightarrow> real \<Rightarrow> real \<Rightarrow> unit io" where
  "serviceability_udl deflection actual_deflection LIMIT =
     (if actual_deflection < NEGLIGIBLE_DEFLECTION then print MsgNegligible
      else if actual_deflection > LIMIT then
        io_then (print MsgExceedsLimit)
       (io_then (print MsgResult)
       (print (MsgMaximumDeflection deflection actual_deflection)))
      else io_return ())"

text \<open>
  Lines 317 to 336 and 364: the point-load branch from the position check on. The
  \<open>return\<close> of line 319 leaves \<open>main\<close>, so the final \<open>print\<close> of line 364 belongs to
  the other path only.
\<close>

definition point_load_analysis ::
  "real \<Rightarrow> real \<Rightarrow> real \<Rightarrow> real \<Rightarrow> real \<Rightarrow> int \<Rightarrow> real \<Rightarrow> unit io" where
  "point_load_analysis P L E I a Lunits LIMIT =
     (if \<not> (0 < a \<and> a < L) then print MsgInvalidPosition
      else
        io_bind (io_of (point_load_ssb P L E I a)) (\<lambda>deflection.
        let actual_deflection = deflection * 1000 in
        io_bind (reactions_point_load P L a) (\<lambda>(R1, R2).
        io_then (serviceability_point actual_deflection LIMIT)
       (io_then (print MsgResult)
       (io_then (print (MsgMaximumDeflection deflection actual_deflection))
       (io_then (plot_sfd_point R1 P a L Lunits)
       (io_then (plot_bmd_point R1 P a L Lunits)
       (io_then (plot_point_load_ssb P L E I a Lunits)
       (print MsgAnalysisComplete)))))))))"

text \<open>Lines 309 to 315, then the analysis.\<close>

definition main_point_load :: "real \<Rightarrow> real \<Rightarrow> real \<Rightarrow> int \<Rightarrow> real \<Rightarrow> unit io" where
  "main_point_load L E I Lunits LIMIT =
     io_bind (float_input AskP) (\<lambda>P.
     io_bind (choice_input AskPUnits [1, 2]) (\<lambda>Punits.
     io_bind (number (convert_load P Punits)) (\<lambda>P.
     io_bind (float_input AskPosition) (\<lambda>a.
     io_bind (choice_input AskPositionUnits [1, 2, 3]) (\<lambda>aunits.
     io_bind (number (convert_length a aunits)) (\<lambda>a.
     point_load_analysis P L E I a Lunits LIMIT))))))"

text \<open>Lines 339 to 360 and 364.\<close>

definition main_udl :: "real \<Rightarrow> real \<Rightarrow> real \<Rightarrow> int \<Rightarrow> real \<Rightarrow> unit io" where
  "main_udl L E I Lunits LIMIT =
     io_bind (positive_float AskIntensity) (\<lambda>w.
     io_bind (choice_input AskIntensityUnits [1, 2]) (\<lambda>wunits.
     io_bind (number (convert_udl w wunits)) (\<lambda>w.
     io_bind (io_of (udl_ssb w L E I)) (\<lambda>deflection.
     let actual_deflection = deflection * 1000 in
     io_bind (reactions_udl w L) (\<lambda>(R1, R2).
     io_then (serviceability_udl deflection actual_deflection LIMIT)
    (io_then (print MsgResult)
    (io_then (print (MsgMaximumDeflection deflection actual_deflection))
    (io_then (plot_sfd_udl w L Lunits)
    (io_then (plot_bmd_udl w L Lunits)
    (io_then (plot_udl_ssb w L E I Lunits)
    (print MsgAnalysisComplete)))))))))))"

text \<open>
  The unit codes come from \<open>choice_input\<close>, which returns listed choices only, so no
  converter returns \<open>None\<close> here; \<open>number\<close> stands for the \<open>TypeError\<close> that a
  \<open>None\<close> would meet at its first arithmetic use.
\<close>

definition main :: "unit io" where
  "main =
     io_then (print MsgTitle)
    (io_then (print MsgNote)
    (io_then (print MsgBeamProperties)
    (io_bind (positive_float AskLength) (\<lambda>L.
     io_bind (choice_input AskLengthUnits [1, 2, 3]) (\<lambda>Lunits.
     io_bind (number (convert_length L Lunits)) (\<lambda>L.
     io_bind (positive_float AskE) (\<lambda>E.
     io_bind (choice_input AskEUnits [1, 2]) (\<lambda>Eunits.
     io_bind (number (convert_E E Eunits)) (\<lambda>E.
     io_bind (positive_float AskI) (\<lambda>I.
     io_bind (choice_input AskIUnits [1, 2]) (\<lambda>Iunits.
     io_bind (number (convert_I I Iunits)) (\<lambda>I.
     io_then (if I < 1 / 10 ^ 10 then print MsgInertiaWarning else io_return ())
    (io_then (print MsgLoadingProperties)
    (io_bind (choice_input AskLoadType [1, 2]) (\<lambda>option.
     let LIMIT = LIMIT_of L in
     if option = 1 then main_point_load L E I Lunits LIMIT
     else if option = 2 then main_udl L E I Lunits LIMIT
     else io_then (print MsgInvalidSelection) (print MsgAnalysisComplete))))))))))))))))"

text \<open>The events an action adds to the output of the state it starts in.\<close>

definition trace :: "'a io \<Rightarrow> world \<Rightarrow> event list" where
  "trace m s = drop (length (out s)) (out (snd (m s)))"

section \<open>Double precision\<close>

text \<open>
  Where a statement is about the values the program really computes, the arithmetic is
  that of IEEE 754 binary64 with rounding to nearest, ties to even. \<open>bits n\<close> is the
  length of \<open>n\<close> in binary, \<open>expo x\<close> the exponent \<open>e\<close> with
  \<open>2^e \<le> |x| < 2^(e+1)\<close>, \<open>ulp x\<close> the spacing of the doubles around \<open>x\<close> (that
  of the subnormals below \<open>2^-1022\<close>), and \<open>rnd x\<close> the multiple of \<open>ulp x\<close> nearest
  to \<open>x\<close>.
\<close>

fun bits :: "nat \<Rightarrow> nat" where
  "bits n = (if n = 0 then 0 else Suc (bits (n div 2)))"

declare bits.simps [simp del]

definition pow2 :: "int \<Rightarrow> real" where
  "pow2 e = (if 0 \<le> e then 2 ^ nat e else 1 / 2 ^ nat (- e))"

definition expo :: "real \<Rightarrow> int" where
  "expo x =
     (if 1 \<le> \<bar>x\<bar> then int (bits (nat \<lfloor>\<bar>x\<bar>\<rfloor>)) - 1
      else - int (bits (nat (\<lceil>1 / \<bar>x\<bar>\<rceil> - 1))))"

definition ulp :: "real \<Rightarrow> real" where
  "ulp x = pow2 (max (expo x) (- 1022) - 52)"

definition round_even :: "real \<Rightarrow> int" where
  "round_even y =
     (let n = \<lfloor>y\<rfloor>; d = y - of_int n in
      if d < 1 / 2 then n else if 1 / 2 < d then n + 1 else if even n then n else n + 1)"

definition rnd :: "real \<Rightarrow> real" where
  "rnd x = (if x = 0 then 0 else of_int (round_even (x / ulp x)) * ulp x)"

text \<open>
  A double: a finite value (\<open>Fin 0\<close> is \<open>+0.0\<close>), \<open>-0.0\<close>, an infinity with its sign
  bit, or a nan. \<open>negative\<close> is the sign bit.
\<close>

datatype fp = Fin real | NegZero | Inf bool | NaN



text \<open>
  \<open>fl s x\<close> is the double for the exact result \<open>x\<close> of an operation: infinite when
  the rounded value leaves the range, a zero of sign \<open>s\<close> when it is zero. \<open>double x\<close>
  is what \<open>float\<close> makes of the decimal text of \<open>x\<close>.
\<close>

definition zero :: "bool \<Rightarrow> fp" where
  "zero s = (if s then NegZero else Fin 0)"

definition fl :: "bool \<Rightarrow> real \<Rightarrow> fp" where
  "fl s x =
     (let y = rnd x in
      if 2 ^ 1024 \<le> \<bar>y\<bar> then Inf (x < 0)
      else if y = 0 then zero s
      else Fin y)"















section \<open>Output traces\<close>

text \<open>
  The events that make up the analysis output: the reaction report, the serviceability
  messages, the deflection result and every diagram.
\<close>

fun analysis_output :: "event \<Rightarrow> bool" where
  "analysis_output (Show f) = True"
| "analysis_output (Print MsgReactionForces) = True"
| "analysis_output (Print (MsgLeftReaction r)) = True"
| "analysis_output (Print (MsgRightReaction r)) = True"
| "analysis_output (Print MsgNegligible) = True"
| "analysis_output (Print MsgExceedsLimit) = True"
| "analysis_output (Print MsgResult) = True"
| "analysis_output (Print (MsgMaximumDeflection d m)) = True"
| "analysis_output e = False"

text \<open>
  \<open>quiet\<close>: neither analysis output nor the invalid-position report; \<open>unreported\<close>: no
  invalid-position report; \<open>aborted\<close>: a normal return whose trace is quiet up to a final
  invalid-position report; \<open>clean\<close>: one of the last two.
\<close>

definition quiet :: "event list \<Rightarrow> bool" where
  "quiet evs = list_all (\<lambda>e. \<not> analysis_output e \<and> e \<noteq> Print MsgInvalidPosition) evs"

definition unreported :: "event list \<Rightarrow> bool" where
  "unreported evs = list_all (\<lambda>e. e \<noteq> Print MsgInvalidPosition) evs"

definition aborted :: "(exn + unit) \<Rightarrow> event list \<Rightarrow> bool" where
  "aborted r evs =
     (r = Inr () \<and> evs \<noteq> [] \<and> last evs = Print MsgInvalidPosition \<and> quiet (butlast evs))"

definition clean :: "(exn + unit) \<Rightarrow> event list \<Rightarrow> bool" where
  "clean r evs = (unreported evs \<or> aborted r evs)"

text \<open>
  \<open>post Q m\<close>: on every state, \<open>m\<close> only appends to the output, and \<open>Q\<close> holds of its
  result and of the events it appends.
\<close>

definition post :: "((exn + 'a) \<Rightarrow> event list \<Rightarrow> bool) \<Rightarrow> 'a io \<Rightarrow> bool" where
  "post Q m = (\<forall>s. \<exists>evs. out (snd (m s)) = out s @ evs \<and> Q (fst (m s)) evs)"

section \<open>Reaction forces balance the load\<close>

lemma reactions_point_load_run:
  "L \<noteq> 0 \<Longrightarrow>
   reactions_point_load P L a s =
     (Inr (P * (L - a) / L, P * a / L),
      emit (Print (MsgRightReaction (P * a / L)))
        (emit (Print (MsgLeftReaction (P * (L - a) / L)))
          (emit (Print MsgReactionForces) s)))"
  by (simp add: reactions_point_load_def Let_def io_then_def io_bind_def print_def io_return_def)

lemma reactions_udl_run:
  "reactions_udl w L s =
     (Inr (w * L / 2, w * L / 2),
      emit (Print (MsgRightReaction (w * L / 2)))
        (emit (Print (MsgLeftReaction (w * L / 2)))
          (emit (Print MsgReactionForces) s)))"
  by (simp add: reactions_udl_def Let_def io_then_def io_bind_def print_def io_return_def)

text \<open>
  C1. For every load \<open>P\<close>, span \<open>L > 0\<close> and position \<open>0 < a < L\<close>,
  \<open>reactions_point_load\<close> returns a pair \<open>(R1, R2)\<close> with \<open>R1 + R2 = P\<close>; for every
  intensity \<open>w\<close> and span \<open>L > 0\<close>, \<open>reactions_udl\<close> returns a pair with
  \<open>R1 + R2 = w * L\<close>. Both hold on whatever console state the functions are called.
\<close>

theorem reactions_sum_to_load:
  assumes "0 < L" and "0 < a" and "a < L"
  shows "(\<exists>R1 R2 s'. reactions_point_load P L a s = (Inr (R1, R2), s') \<and> R1 + R2 = P) \<and>
         (\<exists>R1 R2 s'. reactions_udl w L s = (Inr (R1, R2), s') \<and> R1 + R2 = w * L)"
proof
  from assms have L: "L \<noteq> 0" by simp
  have "P * (L - a) / L + P * a / L = P"
    using L by (simp add: field_simps)
  with reactions_point_load_run [OF L, of P a s]
  show "\<exists>R1 R2 s'. reactions_point_load P L a s = (Inr (R1, R2), s') \<and> R1 + R2 = P"
    by blast
next
  have "w * L / 2 + w * L / 2 = w * L" by simp
  with reactions_udl_run [of w L s]
  show "\<exists>R1 R2 s'. reactions_udl w L s = (Inr (R1, R2), s') \<and> R1 + R2 = w * L"
    by blast
qed

theorem reactions_sum_to_load_witness:
  "(0::real) < 4 \<and> (0::real) < 2 \<and> (2::real) < 4 \<and>
   (\<exists>R1 R2 s'. reactions_point_load 10000 4 2 (console []) = (Inr (R1, R2), s') \<and> R1 + R2 = 10000) \<and>
   (\<exists>R1 R2 s'. reactions_udl 5000 4 (console []) = (Inr (R1, R2), s') \<and> R1 + R2 = 5000 * 4)"
  using reactions_sum_to_load [of 4 2 10000 "console []" 5000] by simp

section \<open>Rounding to the nearest double\<close>

text \<open>
  The model of binary64 does what its description says: \<open>expo x\<close> is the binary
  exponent of \<open>x\<close>, and \<open>rnd x\<close> is a multiple of \<open>ulp x\<close> within half an
  \<open>ulp x\<close> of \<open>x\<close>, the even multiple when \<open>x\<close> lies halfway between two.
\<close>

lemma bits_bounds: "0 < n \<Longrightarrow> 2 ^ (bits n - 1) \<le> n \<and> n < 2 ^ bits n"
proof (induction n rule: bits.induct)
  case (1 n)
  show ?case
  proof (cases "n div 2 = 0")
    case True
    with 1 have "n = 1" by (simp add: div_eq_0_iff) 
    then show ?thesis by (simp add: bits.simps)
  next
    case False
    with 1 have ih: "2 ^ (bits (n div 2) - 1) \<le> n div 2" "n div 2 < 2 ^ bits (n div 2)"
      by auto
    from False have pos: "0 < bits (n div 2)" by (simp add: bits.simps)
    have b: "bits n = Suc (bits (n div 2))" using 1 by (subst bits.simps) simp
    have "2 ^ (bits n - 1) = 2 * 2 ^ (bits (n div 2) - 1)"
      using pos b by (cases "bits (n div 2)") simp_all
    also have "\<dots> \<le> 2 * (n div 2)" using ih(1) by simp
    also have "\<dots> \<le> n" by simp
    finally have lo: "2 ^ (bits n - 1) \<le> n" .
    have "n < 2 * (n div 2 + 1)" by presburger
    also have "\<dots> \<le> 2 * 2 ^ bits (n div 2)" using ih(2) by simp
    finally have "n < 2 ^ bits n" using b by simp
    with lo show ?thesis by simp
  qed
qed

lemma expo_bounds:
  assumes "x \<noteq> 0"
  shows "pow2 (expo x) \<le> \<bar>x\<bar> \<and> \<bar>x\<bar> < pow2 (expo x + 1)"
proof (cases "1 \<le> \<bar>x\<bar>")
  case True
  define n where "n = nat \<lfloor>\<bar>x\<bar>\<rfloor>"
  from True have n: "0 < n" by (simp add: n_def)
  have e: "expo x = int (bits n) - 1" using True by (simp add: expo_def n_def)
  from n have b: "0 < bits n" by (simp add: bits.simps)
  from bits_bounds [OF n] have lo: "2 ^ (bits n - 1) \<le> n" and hi: "n < 2 ^ bits n" by simp_all
  have fl: "real n \<le> \<bar>x\<bar>" "\<bar>x\<bar> < real n + 1"
    using True by (simp_all add: n_def)
  have p1: "pow2 (expo x) = 2 ^ (bits n - 1)"
    using b by (simp add: e pow2_def nat_diff_distrib')
  have p2: "pow2 (expo x + 1) = 2 ^ bits n"
    by (simp add: e pow2_def)
  have "(2::real) ^ (bits n - 1) \<le> real n"
    using of_nat_mono [OF lo, where ?'a = real] by simp
  moreover have "real n + 1 \<le> 2 ^ bits n"
    using of_nat_mono [of "Suc n" "2 ^ bits n", where ?'a = real] hi by simp
  ultimately show ?thesis using fl p1 p2 by linarith
next
  case False
  define y where "y = 1 / \<bar>x\<bar>"
  define m where "m = nat (\<lceil>y\<rceil> - 1)"
  from False assms have y: "1 < y" by (simp add: y_def)
  then have m: "0 < m" by (simp add: m_def)
  have e: "expo x = - int (bits m)" using False by (simp add: expo_def m_def y_def)
  from m have b: "0 < bits m" by (simp add: bits.simps)
  from bits_bounds [OF m] have lo: "2 ^ (bits m - 1) \<le> m" and hi: "m < 2 ^ bits m" by simp_all
  have c1: "real m < y"
    using y by (simp add: m_def) linarith
  have c2: "y \<le> real m + 1"
    using y by (simp add: m_def)
  note c = c1 c2
  have lo': "(2::real) ^ (bits m - 1) \<le> real m"
    using of_nat_mono [OF lo, where ?'a = real] by simp
  have hi': "real m + 1 \<le> 2 ^ bits m"
    using of_nat_mono [of "Suc m" "2 ^ bits m", where ?'a = real] hi by simp
  have p1: "pow2 (expo x) = 1 / 2 ^ bits m"
    using b by (simp add: e pow2_def)
  have p2: "pow2 (expo x + 1) = 1 / 2 ^ (bits m - 1)"
  proof (cases "bits m = 1")
    case True
    then show ?thesis by (simp add: e pow2_def)
  next
    case False
    with b have "\<not> 0 \<le> 1 - int (bits m)" "nat (int (bits m) - 1) = bits m - 1" by simp_all
    then show ?thesis by (simp add: e pow2_def)
  qed
  have x: "\<bar>x\<bar> = 1 / y" using assms by (simp add: y_def)
  have ypos: "0 < y" using y by simp
  have a1: "y \<le> 2 ^ bits m" using c hi' by linarith
  have a2: "(2::real) ^ (bits m - 1) < y" using c lo' by linarith
  have "1 / 2 ^ bits m \<le> 1 / y"
    using a1 ypos by (intro frac_le) simp_all
  moreover have "1 / y < 1 / 2 ^ (bits m - 1)"
    using a2 by (intro frac_less2) simp_all
  ultimately show ?thesis by (simp add: p1 p2 x)
qed



lemma round_even_near: "\<bar>of_int (round_even y) - y\<bar> \<le> 1 / 2"
proof -
  have "of_int \<lfloor>y\<rfloor> \<le> y" "y < of_int \<lfloor>y\<rfloor> + 1" by linarith+
  then show ?thesis
    by (auto simp: round_even_def Let_def)
qed

lemma pow2_pos: "0 < pow2 e"
  by (simp add: pow2_def)

lemma rnd_near: "\<bar>rnd x - x\<bar> \<le> ulp x / 2"
proof (cases "x = 0")
  case True
  then show ?thesis using pow2_pos [of "max (expo x) (- 1022) - 52"] by (simp add: rnd_def ulp_def)
next
  case False
  have u: "0 < ulp x" by (simp add: ulp_def pow2_pos)
  have "rnd x - x = (of_int (round_even (x / ulp x)) - x / ulp x) * ulp x"
    using False u by (simp add: rnd_def left_diff_distrib)
  then have "\<bar>rnd x - x\<bar> = \<bar>of_int (round_even (x / ulp x)) - x / ulp x\<bar> * ulp x"
    using u by (simp add: abs_mult)
  also have "\<dots> \<le> 1 / 2 * ulp x"
    using round_even_near [of "x / ulp x"] u by (intro mult_right_mono) simp_all
  finally show ?thesis by simp
qed

lemma round_even_tie: "even (round_even (of_int n + 1 / 2))"
proof -
  have "\<lfloor>real_of_int n + 1 / 2\<rfloor> = n" by linarith
  then show ?thesis by (simp add: round_even_def Let_def)
qed

section \<open>Scalar deflections and the deflection curves\<close>








section \<open>The sample positions\<close>

lemma length_linspace: "length (linspace a b n) = n"
  by (simp add: linspace_def)

lemma linspace_nth:
  assumes "1 < n" and "i < n"
  shows "linspace a b n ! i = a + real i * ((b - a) / real (n - 1))"
proof (cases "i < n - 1")
  case True
  then show ?thesis using assms by (simp add: linspace_def nth_append)
next
  case False
  with assms have i: "i = n - 1" by simp
  have "a + real (n - 1) * ((b - a) / real (n - 1)) = b"
    using assms by simp
  then show ?thesis using assms i by (simp add: linspace_def nth_append)
qed

lemma hd_linspace: "1 < n \<Longrightarrow> hd (linspace a b n) = a"
  using linspace_nth [of n 0 a b] by (simp add: hd_conv_nth length_linspace flip: length_0_conv)

lemma last_linspace: "1 < n \<Longrightarrow> last (linspace a b n) = b"
  by (simp add: linspace_def)

lemma axis_length_valid:
  "Lunits = 1 \<or> Lunits = 2 \<or> Lunits = 3 \<Longrightarrow> \<exists>xp u. axis_length x Lunits = Some (xp, u)"
  by (auto simp: axis_length_def)

section \<open>The point-load shear diagram\<close>

text \<open>
  C5. For a valid unit code, \<open>plot_sfd_point\<close> shows one figure, the same on every
  console state it is called on. Its sample array \<open>x\<close> is \<open>linspace 0 L 400\<close>: 400
  positions, the first \<open>0\<close>, the last \<open>L\<close>, the \<open>i\<close>-th \<open>i * L / 399\<close>; the x axis holds
  \<open>x\<close> in the chosen unit; and the shear value at every sampled position \<open>x ! i\<close> is
  \<open>R1\<close> when \<open>x ! i < a\<close> and \<open>R1 - P\<close> otherwise.
\<close>

theorem shear_diagram_samples:
  assumes "Lunits = 1 \<or> Lunits = 2 \<or> Lunits = 3"
  shows "\<exists>x V xp u.
      x = linspace 0 L 400 \<and> axis_length x Lunits = Some (xp, u) \<and>
      (\<forall>s. plot_sfd_point R1 P a L Lunits s =
        (Inr (), emit (Show \<lparr>fig_title = ShearPoint, fig_x = xp, fig_y = V,
                              fig_unit = u, fig_marker = None\<rparr>) s)) \<and>
      length x = 400 \<and> length V = 400 \<and> hd x = 0 \<and> last x = L \<and>
      (\<forall>i<400. x ! i = real i * L / 399 \<and> V ! i = (if x ! i < a then R1 else R1 - P))"
proof -
  define x where "x = linspace 0 L 400"
  define V where "V = map (V_point R1 P a) x"
  from assms obtain xp u where ax: "axis_length x Lunits = Some (xp, u)"
    using axis_length_valid by blast
  have len: "length x = 400" by (simp add: x_def length_linspace)
  have run: "\<forall>s. plot_sfd_point R1 P a L Lunits s =
        (Inr (), emit (Show \<lparr>fig_title = ShearPoint, fig_x = xp, fig_y = V,
                              fig_unit = u, fig_marker = None\<rparr>) s)"
    using ax by (simp add: plot_sfd_point_def Let_def plt_show_def x_def V_def)
  have ends: "hd x = 0" "last x = L"
    by (simp_all add: x_def hd_linspace last_linspace)
  have pts: "\<forall>i<400. x ! i = real i * L / 399 \<and> V ! i = (if x ! i < a then R1 else R1 - P)"
  proof (intro allI impI)
    fix i :: nat assume i: "i < 400"
    have "x ! i = real i * L / 399"
      using linspace_nth [of 400 i 0 L] i by (simp add: x_def)
    moreover have "V ! i = V_point R1 P a (x ! i)"
      using i len by (simp add: V_def)
    ultimately show "x ! i = real i * L / 399 \<and> V ! i = (if x ! i < a then R1 else R1 - P)"
      by (simp add: V_point_def)
  qed
  show ?thesis
    using ax run len ends pts by (intro exI [of _ x] exI [of _ V] exI [of _ xp] exI [of _ u]) (simp add: V_def x_def)
qed

theorem shear_diagram_samples_witness:
  "\<exists>f. trace (plot_sfd_point 5000 10000 2 4 1) (console []) = [Show f] \<and>
       length (fig_y f) = 400 \<and> fig_y f ! 0 = 5000 \<and> fig_y f ! 399 = - 5000 \<and>
       fig_x f ! 0 = 0 \<and> fig_x f ! 399 = 4"
proof -
  have u: "(1::int) = 1 \<or> (1::int) = 2 \<or> (1::int) = 3" by simp
  from shear_diagram_samples [OF u, of 4 5000 10000 2]
  obtain x V xp u where
    x: "x = linspace 0 4 400" and ax: "axis_length x 1 = Some (xp, u)" and
    run: "\<forall>s. plot_sfd_point 5000 10000 2 4 1 s =
        (Inr (), emit (Show \<lparr>fig_title = ShearPoint, fig_x = xp, fig_y = V,
                              fig_unit = u, fig_marker = None\<rparr>) s)" and
    len: "length V = 400" and
    pts: "\<forall>i<400. x ! i = real i * 4 / 399 \<and> V ! i = (if x ! i < 2 then 5000 else 5000 - 10000)"
    by blast
  from ax have xp: "xp = x" by (simp add: axis_length_def)
  have "(0::nat) < 400" and "(399::nat) < 400" by simp_all
  with pts have
    "x ! 0 = real 0 * 4 / 399 \<and> V ! 0 = (if x ! 0 < 2 then 5000 else 5000 - 10000)"
    "x ! 399 = real 399 * 4 / 399 \<and> V ! 399 = (if x ! 399 < 2 then 5000 else 5000 - 10000)"
    by blast+
  then have "x ! 0 = 0" "V ! 0 = 5000" "x ! 399 = 4" "V ! 399 = - 5000" by simp_all
  then show ?thesis
    using run len xp by (simp add: trace_def emit_def console_def)
qed

section \<open>The bending moment diagrams\<close>

text \<open>
  C6. The point-load bending moment of \<open>plot_bmd_point\<close> has no jump at the load
  position: its value at \<open>x = a\<close>, taken from the right branch \<open>R1 * x - P * (x - a)\<close>, is
  the value \<open>R1 * a\<close> of the left branch \<open>R1 * x\<close> there, and the function is continuous
  at \<open>a\<close>. This holds for every \<open>R1\<close>, \<open>P\<close> and \<open>a\<close>.
\<close>

theorem moment_continuous_at_load:
  "M_point R1 P a a = R1 * a \<and> R1 * a = R1 * a - P * (a - a) \<and> isCont (M_point R1 P a) a"
proof -
  have "M_point R1 P a = (\<lambda>x. R1 * x - P * max 0 (x - a))"
    by (auto simp: M_point_def fun_eq_iff max_def)
  moreover have "isCont (\<lambda>x. R1 * x - P * max 0 (x - a)) a"
    by (intro continuous_intros)
  ultimately show ?thesis by (simp add: M_point_def)
qed





section \<open>Symmetry of the UDL deflection curve\<close>

text \<open>
  C7. For all \<open>L, E, I > 0\<close>, all \<open>w\<close> and every \<open>x\<close> in \<open>[0, L]\<close>, the UDL deflection
  curve of \<open>plot_udl_ssb\<close> takes the same value at \<open>x\<close> and at \<open>L - x\<close>.
\<close>

theorem udl_deflection_symmetric:
  assumes "0 < L" and "0 < E" and "0 < I" and "0 \<le> x" and "x \<le> L"
  shows "y_udl w L E I x = y_udl w L E I (L - x)"
proof -
  have "x * (L ^ 3 - 2 * L * (x ^ 2) + x ^ 3) = (L - x) * (L ^ 3 - 2 * L * ((L - x) ^ 2) + (L - x) ^ 3)"
    by (simp add: algebra_simps power2_eq_square power3_eq_cube)
  then have "w * x * (L ^ 3 - 2 * L * (x ^ 2) + x ^ 3) =
             w * (L - x) * (L ^ 3 - 2 * L * ((L - x) ^ 2) + (L - x) ^ 3)"
    by (simp only: mult.assoc)
  then show ?thesis by (simp only: y_udl_def)
qed

theorem udl_deflection_symmetric_witness:
  "(0::real) < 6 \<and> (0::real) < 30 * 10 ^ 9 \<and> (0::real) < 2 / 100 \<and> (0::real) \<le> 1 \<and> (1::real) \<le> 6 \<and>
   y_udl 5000 6 (30 * 10 ^ 9) (2 / 100) 1 = y_udl 5000 6 (30 * 10 ^ 9) (2 / 100) (6 - 1)"
  using udl_deflection_symmetric [of 6 "30 * 10 ^ 9" "2 / 100" 1 5000] by simp

section \<open>Unit conversion\<close>

text \<open>
  C8. Each converter applies the factor of its unit code: \<open>convert_length\<close> divides by
  1, 1000, 100 for m, mm, cm (codes 1, 2, 3); \<open>convert_E\<close> multiplies by \<open>10^9\<close>,
  \<open>10^6\<close> for GPa, MPa; \<open>convert_I\<close> by \<open>10^-12\<close>, 1 for mm^4, m^4; \<open>convert_load\<close> and
  \<open>convert_udl\<close> by 1, 1000 for N, kN and N/m, kN/m.
\<close>

theorem converters_apply_factors:
  "convert_length v 1 = Some (v / 1) \<and> convert_length v 2 = Some (v / 1000) \<and>
   convert_length v 3 = Some (v / 100) \<and>
   convert_E v 1 = Some (v * 10 ^ 9) \<and> convert_E v 2 = Some (v * 10 ^ 6) \<and>
   convert_I v 1 = Some (v * (1 / 10 ^ 12)) \<and> convert_I v 2 = Some (v * 1) \<and>
   convert_load v 1 = Some (v * 1) \<and> convert_load v 2 = Some (v * 1000) \<and>
   convert_udl v 1 = Some (v * 1) \<and> convert_udl v 2 = Some (v * 1000)"
  by (simp add: convert_length_def convert_E_def convert_I_def convert_load_def convert_udl_def)

section \<open>Serviceability classification\<close>

text \<open>
  C4. The \<open>if\<close>/\<open>elif\<close> of either load case has exactly three outcomes: the negligible
  message alone, the serviceability warning, or no message, and it never raises. The
  negligible message is printed exactly when the deflection in mm is below
  \<open>NEGLIGIBLE_DEFLECTION\<close>, the warning exactly when that test fails and the deflection
  is above the limit, so the negligibility test comes first. The limit is the span in mm
  divided by 250. In particular 0.0005 mm on a 5 m span (limit 20 mm) is negligible,
  25 mm on a 5000 mm span gives the warning, and 0.0005 mm is negligible even on a span
  whose limit it exceeds.
\<close>

theorem serviceability_outcomes:
  "(trace (serviceability_point d LIMIT) s = [Print MsgNegligible] \<or>
    trace (serviceability_point d LIMIT) s = [Print MsgExceedsLimit] \<or>
    trace (serviceability_point d LIMIT) s = []) \<and>
   (trace (serviceability_point d LIMIT) s = [Print MsgNegligible] \<longleftrightarrow> d < 1 / 1000) \<and>
   (trace (serviceability_point d LIMIT) s = [Print MsgExceedsLimit] \<longleftrightarrow>
      \<not> d < 1 / 1000 \<and> d > LIMIT) \<and>
   (trace (serviceability_udl d0 d LIMIT) s = [Print MsgNegligible] \<or>
    trace (serviceability_udl d0 d LIMIT) s =
      [Print MsgExceedsLimit, Print MsgResult, Print (MsgMaximumDeflection d0 d)] \<or>
    trace (serviceability_udl d0 d LIMIT) s = []) \<and>
   (Print MsgNegligible \<in> set (trace (serviceability_udl d0 d LIMIT) s) \<longleftrightarrow> d < 1 / 1000) \<and>
   (Print MsgExceedsLimit \<in> set (trace (serviceability_udl d0 d LIMIT) s) \<longleftrightarrow>
      \<not> d < 1 / 1000 \<and> d > LIMIT) \<and>
   fst (serviceability_point d LIMIT s) = Inr () \<and>
   fst (serviceability_udl d0 d LIMIT s) = Inr () \<and>
   LIMIT_of L = (L * 1000) / 250 \<and>
   LIMIT_of 5 = 20 \<and>
   trace (serviceability_point (5 / 10000) (LIMIT_of 5)) s = [Print MsgNegligible] \<and>
   trace (serviceability_point 25 (LIMIT_of (5000 / 1000))) s = [Print MsgExceedsLimit] \<and>
   LIMIT_of (1 / 10000) < 5 / 10000 \<and>
   trace (serviceability_point (5 / 10000) (LIMIT_of (1 / 10000))) s = [Print MsgNegligible]"
  by (simp add: trace_def serviceability_point_def serviceability_udl_def
      NEGLIGIBLE_DEFLECTION_def LIMIT_of_def print_def io_return_def io_then_def io_bind_def
      emit_def)

section \<open>Runs of the analysis\<close>

text \<open>
  With a valid unit code every plotting function shows one figure and returns, so a
  point-load analysis that passes the position check runs to its end: the reactions,
  the serviceability message if any, the result, three figures and the final line.
\<close>

lemma linspace_400_nonempty: "\<exists>x0 xs. linspace 0 L 400 = x0 # xs"
  by (cases "linspace 0 L 400") (use length_linspace [of 0 L 400] in auto)

lemma plot_sfd_point_shows:
  "Lunits = 1 \<or> Lunits = 2 \<or> Lunits = 3 \<Longrightarrow>
   \<exists>f. \<forall>s. plot_sfd_point R1 P a L Lunits s = (Inr (), emit (Show f) s)"
  by (auto simp: plot_sfd_point_def axis_length_def Let_def plt_show_def)

lemma plot_bmd_point_shows:
  "Lunits = 1 \<or> Lunits = 2 \<or> Lunits = 3 \<Longrightarrow>
   \<exists>f. \<forall>s. plot_bmd_point R1 P a L Lunits s = (Inr (), emit (Show f) s)"
  by (auto simp: plot_bmd_point_def axis_length_def Let_def plt_show_def)

lemma plot_point_load_ssb_shows:
  assumes "Lunits = 1 \<or> Lunits = 2 \<or> Lunits = 3"
  shows "\<exists>f. \<forall>s. plot_point_load_ssb P L E I a Lunits s = (Inr (), emit (Show f) s)"
proof -
  obtain x0 xs where "linspace 0 L 400 = x0 # xs"
    using linspace_400_nonempty by blast
  with assms show ?thesis
    by (auto simp: plot_point_load_ssb_def Let_def plt_show_def io_bind_def io_of_def)
qed

lemma point_load_analysis_run:
  assumes "0 < a" and "a < L" and "0 < E" and "0 < I"
    and "Lunits = 1 \<or> Lunits = 2 \<or> Lunits = 3"
    and "point_load_ssb P L E I a = Inr d"
  shows "\<exists>f1 f2 f3. point_load_analysis P L E I a Lunits LIMIT s =
    (Inr (), s\<lparr>out := out s @
       [Print MsgReactionForces, Print (MsgLeftReaction (P * (L - a) / L)),
        Print (MsgRightReaction (P * a / L))] @
       trace (serviceability_point (d * 1000) LIMIT) s @
       [Print MsgResult, Print (MsgMaximumDeflection d (d * 1000)),
        Show f1, Show f2, Show f3, Print MsgAnalysisComplete]\<rparr>)"
proof -
  from assms have L: "L \<noteq> 0" by simp
  obtain f1 where f1: "\<And>s. plot_sfd_point (P * (L - a) / L) P a L Lunits s = (Inr (), emit (Show f1) s)"
    using plot_sfd_point_shows [OF assms(5)] by blast
  obtain f2 where f2: "\<And>s. plot_bmd_point (P * (L - a) / L) P a L Lunits s = (Inr (), emit (Show f2) s)"
    using plot_bmd_point_shows [OF assms(5)] by blast
  obtain f3 where f3: "\<And>s. plot_point_load_ssb P L E I a Lunits s = (Inr (), emit (Show f3) s)"
    using plot_point_load_ssb_shows [OF assms(5)] by blast
  have sv: "serviceability_point (d * 1000) LIMIT s' =
      (Inr (), s'\<lparr>out := out s' @ trace (serviceability_point (d * 1000) LIMIT) s\<rparr>)" for s'
    by (simp add: serviceability_point_def trace_def print_def io_return_def emit_def)
  show ?thesis
    using assms(1,2,6)
    by (intro exI [of _ f1] exI [of _ f2] exI [of _ f3])
      (simp add: point_load_analysis_def Let_def io_bind_def io_then_def io_of_def
        reactions_point_load_run [OF L] sv f1 f2 f3 print_def emit_def)
qed

text \<open>
  C3. The source compares the signed deflection with \<open>NEGLIGIBLE_DEFLECTION\<close>, not its
  absolute value. On a 4 m beam (E = 200 GPa, I = 8000000 mm^4) with an upward load of
  10 kN at 2 m the program returns normally, reports a maximum deflection of
  \<open>-1/120\<close> m, that is \<open>-25/3\<close> mm, whose absolute value is not below 0.001 mm, and
  prints the negligible message.
\<close>

theorem upward_load_reported_negligible:
  "\<exists>s'. main (console [IntLine 4, IntLine 1, IntLine 200, IntLine 1, IntLine 8000000, IntLine 1,
            IntLine 1, IntLine (- 10), IntLine 2, IntLine 2, IntLine 1]) = (Inr (), s') \<and>
         Print (MsgMaximumDeflection (- (1 / 120)) (- (25 / 3))) \<in> set (out s') \<and>
         NEGLIGIBLE_DEFLECTION \<le> \<bar>- (25 / 3)\<bar> \<and>
         Print MsgNegligible \<in> set (out s')"
proof -
  let ?s = "\<lparr>inp = [], out = [Print MsgTitle, Print MsgNote, Print MsgBeamProperties,
      Ask AskLength, Ask AskLengthUnits, Ask AskE, Ask AskEUnits, Ask AskI, Ask AskIUnits,
      Print MsgLoadingProperties, Ask AskLoadType, Ask AskP, Ask AskPUnits,
      Ask AskPosition, Ask AskPositionUnits]\<rparr>"
  have reads: "main (console [IntLine 4, IntLine 1, IntLine 200, IntLine 1, IntLine 8000000,
        IntLine 1, IntLine 1, IntLine (- 10), IntLine 2, IntLine 2, IntLine 1]) =
      point_load_analysis (- 10000) 4 (200 * 10 ^ 9) (8 / 10 ^ 6) 2 1 16 ?s"
    by (simp add: main_def main_point_load_def console_def io_bind_def io_then_def
        io_return_def print_def number_def emit_def choice_input_def positive_float_def
        float_input_def convert_length_def convert_E_def convert_I_def convert_load_def
        LIMIT_of_def)
  have d: "point_load_ssb (- 10000) 4 (200 * 10 ^ 9) (8 / 10 ^ 6) 2 = Inr (- (1 / 120))"
    by (simp add: point_load_ssb_def)
  have sv: "trace (serviceability_point (- (1 / 120) * 1000) 16) ?s = [Print MsgNegligible]"
    by (simp add: trace_def serviceability_point_def NEGLIGIBLE_DEFLECTION_def print_def emit_def)
  from point_load_analysis_run [OF _ _ _ _ _ d, of 1 16 ?s]
  obtain f1 f2 f3 where "point_load_analysis (- 10000) 4 (200 * 10 ^ 9) (8 / 10 ^ 6) 2 1 16 ?s =
    (Inr (), ?s\<lparr>out := out ?s @
       [Print MsgReactionForces, Print (MsgLeftReaction (- 10000 * (4 - 2) / 4)),
        Print (MsgRightReaction (- 10000 * 2 / 4))] @
       trace (serviceability_point (- (1 / 120) * 1000) 16) ?s @
       [Print MsgResult, Print (MsgMaximumDeflection (- (1 / 120)) (- (1 / 120) * 1000)),
        Show f1, Show f2, Show f3, Print MsgAnalysisComplete]\<rparr>)"
    by auto
  with reads sv show ?thesis
    by (simp add: NEGLIGIBLE_DEFLECTION_def)
qed

section \<open>Abort on an invalid load position\<close>

text \<open>
  What each action can add to the output is tracked through \<open>io_bind\<close>: the readers
  are quiet, the analysis steps never print the invalid-position report, and \<open>main\<close>
  is clean.
\<close>

lemma quiet_simps [simp]:
  "quiet []" "quiet (xs @ ys) = (quiet xs \<and> quiet ys)"
  "quiet (e # xs) = (\<not> analysis_output e \<and> e \<noteq> Print MsgInvalidPosition \<and> quiet xs)"
  by (simp_all add: quiet_def)

lemma unreported_simps [simp]:
  "unreported []" "unreported (xs @ ys) = (unreported xs \<and> unreported ys)"
  "unreported (e # xs) = (e \<noteq> Print MsgInvalidPosition \<and> unreported xs)"
  by (simp_all add: unreported_def)

lemma quiet_unreported: "quiet evs \<Longrightarrow> unreported evs"
  by (induction evs) auto

lemma post_weaken: "post Q m \<Longrightarrow> (\<And>r evs. Q r evs \<Longrightarrow> Q' r evs) \<Longrightarrow> post Q' m"
  unfolding post_def by blast

lemma post_bind:
  assumes m: "post Q1 m" and f: "\<And>x. post (Q2 x) (f x)"
    and exc: "\<And>e evs. Q1 (Inl e) evs \<Longrightarrow> Q (Inl e) evs"
    and seq: "\<And>x e1 r e2. Q1 (Inr x) e1 \<Longrightarrow> Q2 x r e2 \<Longrightarrow> Q r (e1 @ e2)"
  shows "post Q (io_bind m f)"
  unfolding post_def
proof
  fix s
  from m obtain e1 where e1: "out (snd (m s)) = out s @ e1" "Q1 (fst (m s)) e1"
    unfolding post_def by blast
  show "\<exists>evs. out (snd (io_bind m f s)) = out s @ evs \<and> Q (fst (io_bind m f s)) evs"
  proof (cases "m s")
    case (Pair r s')
    show ?thesis
    proof (cases r)
      case (Inl e)
      with Pair e1 exc show ?thesis by (auto simp: io_bind_def)
    next
      case (Inr x)
      from f obtain e2 where e2: "out (snd (f x s')) = out s' @ e2" "Q2 x (fst (f x s')) e2"
        unfolding post_def by blast
      from Inr Pair e1 e2 seq [of x e1 "fst (f x s')" e2] show ?thesis
        by (auto simp: io_bind_def)
    qed
  qed
qed

lemma quiet_bind:
  "post (\<lambda>r. quiet) m \<Longrightarrow> (\<And>x. post (\<lambda>r. quiet) (f x)) \<Longrightarrow> post (\<lambda>r. quiet) (io_bind m f)"
  by (rule post_bind [where ?Q1.0 = "\<lambda>r. quiet" and ?Q2.0 = "\<lambda>x r. quiet"]) auto

lemma unreported_bind:
  "post (\<lambda>r. unreported) m \<Longrightarrow> (\<And>x. post (\<lambda>r. unreported) (f x)) \<Longrightarrow>
   post (\<lambda>r. unreported) (io_bind m f)"
  by (rule post_bind [where ?Q1.0 = "\<lambda>r. unreported" and ?Q2.0 = "\<lambda>x r. unreported"]) auto

lemma clean_bind:
  "post (\<lambda>r. quiet) m \<Longrightarrow> (\<And>x. post clean (f x)) \<Longrightarrow> post clean (io_bind m f)"
proof (rule post_bind [where ?Q1.0 = "\<lambda>r. quiet" and ?Q2.0 = "\<lambda>x. clean"])
  fix x :: 'a and e1 r e2
  assume "quiet e1" "clean r e2"
  then show "clean r (e1 @ e2)"
    by (auto simp: clean_def aborted_def butlast_append dest: quiet_unreported)
qed (auto simp: clean_def dest: quiet_unreported)

lemma post_print: "Q (Inr ()) [Print m] \<Longrightarrow> post Q (print m)"
  by (simp add: post_def print_def emit_def)

lemma post_show: "Q (Inr ()) [Show f] \<Longrightarrow> post Q (plt_show f)"
  by (simp add: post_def plt_show_def emit_def)

lemma post_return: "Q (Inr x) [] \<Longrightarrow> post Q (io_return x)"
  by (simp add: post_def io_return_def)

lemma post_raise: "Q (Inl e) [] \<Longrightarrow> post Q (io_raise e)"
  by (simp add: post_def io_raise_def)

lemma post_io_of: "Q r [] \<Longrightarrow> post Q (io_of r)"
  by (simp add: post_def io_of_def)

lemma post_number: "(\<And>r. Q r []) \<Longrightarrow> post Q (number v)"
  by (cases v) (simp_all add: number_def post_raise post_return)

lemma choice_input_loop_quiet:
  "\<exists>new. out (snd (choice_input_loop p valid ls evs)) = evs @ new \<and> quiet new"
proof (induction ls arbitrary: evs)
  case Nil
  show ?case by simp
next
  case (Cons l ls)
  show ?case
  proof (cases "py_int l")
    case (Inl e)
    from Cons [of "evs @ [Ask p, Print MsgEnterValidNumber]"] Inl show ?thesis by auto
  next
    case (Inr v)
    from Cons [of "evs @ [Ask p, Print MsgInvalidChoice]"] Inr show ?thesis by auto
  qed
qed

lemma positive_float_loop_quiet:
  "\<exists>new. out (snd (positive_float_loop p ls evs)) = evs @ new \<and> quiet new"
proof (induction ls arbitrary: evs)
  case Nil
  show ?case by simp
next
  case (Cons l ls)
  show ?case
  proof (cases "py_float l")
    case (Inl e)
    from Cons [of "evs @ [Ask p, Print MsgEnterValidNumber]"] Inl show ?thesis by auto
  next
    case (Inr v)
    from Cons [of "evs @ [Ask p, Print MsgMustBePositive]"] Inr show ?thesis by auto
  qed
qed

lemma quiet_choice_input: "post (\<lambda>r. quiet) (choice_input p valid)"
  by (simp add: post_def choice_input_def choice_input_loop_quiet)

lemma quiet_positive_float: "post (\<lambda>r. quiet) (positive_float p)"
  by (simp add: post_def positive_float_def positive_float_loop_quiet)

lemma quiet_float_input: "post (\<lambda>r. quiet) (float_input p)"
  by (simp add: post_def float_input_def emit_def split: list.split)


lemma post_then: "post Q (io_bind m (\<lambda>_. k)) \<Longrightarrow> post Q (io_then m k)"
  by (simp add: io_then_def)

lemma unreported_then:
  "post (\<lambda>r. unreported) m \<Longrightarrow> post (\<lambda>r. unreported) k \<Longrightarrow> post (\<lambda>r. unreported) (io_then m k)"
  by (simp add: io_then_def unreported_bind)

lemma quiet_then:
  "post (\<lambda>r. quiet) m \<Longrightarrow> post (\<lambda>r. quiet) k \<Longrightarrow> post (\<lambda>r. quiet) (io_then m k)"
  by (simp add: io_then_def quiet_bind)

lemma clean_then:
  "post (\<lambda>r. quiet) m \<Longrightarrow> post clean k \<Longrightarrow> post clean (io_then m k)"
  by (simp add: io_then_def clean_bind)

lemma unreported_print: "m \<noteq> MsgInvalidPosition \<Longrightarrow> post (\<lambda>r. unreported) (print m)"
  by (simp add: post_print)

lemma unreported_clean: "post (\<lambda>r. unreported) m \<Longrightarrow> post clean m"
  by (erule post_weaken) (simp add: clean_def)

lemma unreported_plot_sfd_point: "post (\<lambda>r. unreported) (plot_sfd_point R1 P a L Lunits)"
  by (simp add: plot_sfd_point_def Let_def post_raise post_show split: option.split)

lemma unreported_plot_bmd_point: "post (\<lambda>r. unreported) (plot_bmd_point R1 P a L Lunits)"
  by (simp add: plot_bmd_point_def Let_def post_raise post_show split: option.split)

lemma unreported_plot_sfd_udl: "post (\<lambda>r. unreported) (plot_sfd_udl w L Lunits)"
  by (simp add: plot_sfd_udl_def Let_def post_raise post_show split: option.split)

lemma unreported_plot_bmd_udl: "post (\<lambda>r. unreported) (plot_bmd_udl w L Lunits)"
  by (simp add: plot_bmd_udl_def Let_def post_raise post_show split: option.split)

lemma unreported_plot_point_load_ssb:
  "post (\<lambda>r. unreported) (plot_point_load_ssb P L E I a Lunits)"
  by (simp add: plot_point_load_ssb_def Let_def post_raise post_show post_io_of unreported_bind)

lemma unreported_plot_udl_ssb: "post (\<lambda>r. unreported) (plot_udl_ssb w L E I Lunits)"
  by (simp add: plot_udl_ssb_def Let_def post_raise post_show)

lemma unreported_reactions_point_load: "post (\<lambda>r. unreported) (reactions_point_load P L a)"
  by (simp add: reactions_point_load_def Let_def post_raise post_return post_print
      unreported_then)

lemma unreported_reactions_udl: "post (\<lambda>r. unreported) (reactions_udl w L)"
  by (simp add: reactions_udl_def Let_def post_return post_print unreported_then)

lemma unreported_serviceability_point:
  "post (\<lambda>r. unreported) (serviceability_point d LIMIT)"
  by (simp add: serviceability_point_def post_return post_print)

lemma unreported_serviceability_udl:
  "post (\<lambda>r. unreported) (serviceability_udl d0 d LIMIT)"
  by (simp add: serviceability_udl_def post_return post_print unreported_then)

lemmas unreported_steps =
  unreported_plot_sfd_point unreported_plot_bmd_point unreported_plot_sfd_udl
  unreported_plot_bmd_udl unreported_plot_point_load_ssb unreported_plot_udl_ssb
  unreported_reactions_point_load unreported_reactions_udl
  unreported_serviceability_point unreported_serviceability_udl

lemma clean_point_load_analysis: "post clean (point_load_analysis P L E I a Lunits LIMIT)"
proof (cases "0 < a \<and> a < L")
  case False
  then show ?thesis
    by (simp add: point_load_analysis_def post_print clean_def aborted_def)
next
  case True
  have "post (\<lambda>r. unreported) (point_load_analysis P L E I a Lunits LIMIT)"
    using True unfolding point_load_analysis_def Let_def
    by (simp add: unreported_bind unreported_then unreported_steps post_io_of post_print
        split_def)
  then show ?thesis by (rule unreported_clean)
qed

lemma clean_main_point_load: "post clean (main_point_load L E I Lunits LIMIT)"
  unfolding main_point_load_def
  by (intro clean_bind quiet_float_input quiet_choice_input post_number clean_point_load_analysis)
    simp_all

lemma clean_main_udl: "post clean (main_udl L E I Lunits LIMIT)"
proof -
  have "post (\<lambda>r. unreported) (main_udl L E I Lunits LIMIT)"
    unfolding main_udl_def Let_def
    by (intro unreported_bind unreported_then)
      (simp_all add: unreported_steps post_io_of post_print post_number split_def
        post_weaken [OF quiet_positive_float quiet_unreported]
        post_weaken [OF quiet_choice_input quiet_unreported] unreported_bind unreported_then)
  then show ?thesis by (rule unreported_clean)
qed

lemma clean_main: "post clean main"
  unfolding main_def Let_def
  by (intro clean_bind clean_then quiet_positive_float quiet_choice_input post_number)
    (simp_all add: post_print post_return clean_main_point_load clean_main_udl
      unreported_clean unreported_then)

lemma clean_aborted:
  assumes "clean r evs" and "Print MsgInvalidPosition \<in> set evs"
  shows "r = Inr () \<and> last evs = Print MsgInvalidPosition \<and> (\<forall>e\<in>set evs. \<not> analysis_output e)"
proof -
  from assms have "aborted r evs"
    by (auto simp: clean_def unreported_def list_all_iff)
  then have r: "r = Inr ()" and l: "last evs = Print MsgInvalidPosition"
    and q: "quiet (butlast evs)" and ne: "evs \<noteq> []"
    by (simp_all add: aborted_def)
  from ne have "evs = butlast evs @ [last evs]" by simp
  then have "set evs = set (butlast evs) \<union> {last evs}"
    by (metis list.set(1) list.simps(15) set_append)
  with q l have "\<forall>e\<in>set evs. \<not> analysis_output e"
    by (auto simp: quiet_def list_all_iff)
  with r l show ?thesis by simp
qed

text \<open>
  C9. If the converted load position \<open>a\<close> does not satisfy \<open>0 < a < L\<close>, the point-load
  branch prints the invalid-position report and returns, adding nothing else to the
  output. So when the point-load branch reads a load, a position and their units that
  convert to such an \<open>a\<close>, it emits its four prompts and the report only. And on every
  input, a run of \<open>main\<close> that prints the report returns normally, ends with the report
  and contains no analysis output: no reactions, no serviceability message, no
  deflection result and no diagram.
\<close>

theorem invalid_position_aborts:
  "(\<not> (0 < a \<and> a < L) \<longrightarrow>
      point_load_analysis P L E I a Lunits LIMIT s =
        (Inr (), emit (Print MsgInvalidPosition) s)) \<and>
   (inp s = lP # IntLine uP # la # IntLine ua # rest \<and>
    py_float lP = Inr P0 \<and> convert_load P0 uP = Some P \<and>
    py_float la = Inr a0 \<and> convert_length a0 ua = Some a \<and> \<not> (0 < a \<and> a < L) \<longrightarrow>
      main_point_load L E I Lunits LIMIT s =
        (Inr (), \<lparr>inp = rest, out = out s @ [Ask AskP, Ask AskPUnits, Ask AskPosition,
           Ask AskPositionUnits, Print MsgInvalidPosition]\<rparr>)) \<and>
   (Print MsgInvalidPosition \<in> set (out (snd (main (console ls)))) \<longrightarrow>
      fst (main (console ls)) = Inr () \<and>
      last (out (snd (main (console ls)))) = Print MsgInvalidPosition \<and>
      (\<forall>e\<in>set (out (snd (main (console ls)))). \<not> analysis_output e))"
proof (intro conjI impI)
  assume "\<not> (0 < a \<and> a < L)"
  then show "point_load_analysis P L E I a Lunits LIMIT s =
      (Inr (), emit (Print MsgInvalidPosition) s)"
    by (simp add: point_load_analysis_def print_def)
next
  assume h: "inp s = lP # IntLine uP # la # IntLine ua # rest \<and>
    py_float lP = Inr P0 \<and> convert_load P0 uP = Some P \<and>
    py_float la = Inr a0 \<and> convert_length a0 ua = Some a \<and> \<not> (0 < a \<and> a < L)"
  then have uP: "uP = 1 \<or> uP = 2" and ua: "ua = 1 \<or> ua = 2 \<or> ua = 3"
    by (auto simp: convert_load_def convert_length_def split: if_splits)
  have 1: "float_input AskP s = (Inr P0, \<lparr>inp = IntLine uP # la # IntLine ua # rest,
      out = out s @ [Ask AskP]\<rparr>)"
    using h by (simp add: float_input_def)
  have 2: "choice_input AskPUnits [1, 2] \<lparr>inp = IntLine uP # la # IntLine ua # rest,
      out = out s @ [Ask AskP]\<rparr> = (Inr uP, \<lparr>inp = la # IntLine ua # rest,
      out = out s @ [Ask AskP, Ask AskPUnits]\<rparr>)"
    using uP by (auto simp: choice_input_def)
  have 3: "float_input AskPosition \<lparr>inp = la # IntLine ua # rest,
      out = out s @ [Ask AskP, Ask AskPUnits]\<rparr> = (Inr a0, \<lparr>inp = IntLine ua # rest,
      out = out s @ [Ask AskP, Ask AskPUnits, Ask AskPosition]\<rparr>)"
    using h by (simp add: float_input_def)
  have 4: "choice_input AskPositionUnits [1, 2, 3] \<lparr>inp = IntLine ua # rest,
      out = out s @ [Ask AskP, Ask AskPUnits, Ask AskPosition]\<rparr> = (Inr ua, \<lparr>inp = rest,
      out = out s @ [Ask AskP, Ask AskPUnits, Ask AskPosition, Ask AskPositionUnits]\<rparr>)"
    using ua by (auto simp: choice_input_def)
  from h show "main_point_load L E I Lunits LIMIT s =
        (Inr (), \<lparr>inp = rest, out = out s @ [Ask AskP, Ask AskPUnits, Ask AskPosition,
           Ask AskPositionUnits, Print MsgInvalidPosition]\<rparr>)"
    by (simp add: main_point_load_def io_bind_def 1 2 3 4 number_def io_return_def
        point_load_analysis_def print_def emit_def)
next
  assume rep: "Print MsgInvalidPosition \<in> set (out (snd (main (console ls))))"
  from clean_main obtain evs where
    evs: "out (snd (main (console ls))) = out (console ls) @ evs"
      "clean (fst (main (console ls))) evs"
    unfolding post_def by blast
  then have "out (snd (main (console ls))) = evs" by (simp add: console_def)
  with rep evs(2) clean_aborted [of "fst (main (console ls))" evs]
  show "fst (main (console ls)) = Inr ()"
    and "last (out (snd (main (console ls)))) = Print MsgInvalidPosition"
    and "\<forall>e\<in>set (out (snd (main (console ls)))). \<not> analysis_output e"
    by simp_all
qed

theorem invalid_position_aborts_witness:
  "\<not> ((0::real) < 5 \<and> (5::real) < 4) \<and>
   point_load_analysis 10000 4 (200 * 10 ^ 9) (8 / 10 ^ 6) 5 1 16
       (console [IntLine 10, IntLine 2, IntLine 5000, IntLine 2, OtherLine]) =
     (Inr (), \<lparr>inp = [IntLine 10, IntLine 2, IntLine 5000, IntLine 2, OtherLine],
        out = [Print MsgInvalidPosition]\<rparr>) \<and>
   main_point_load 4 (200 * 10 ^ 9) (8 / 10 ^ 6) 1 16
       (console [IntLine 10, IntLine 2, IntLine 5000, IntLine 2, OtherLine]) =
     (Inr (), \<lparr>inp = [OtherLine], out = [Ask AskP, Ask AskPUnits, Ask AskPosition,
        Ask AskPositionUnits, Print MsgInvalidPosition]\<rparr>) \<and>
   main (console [IntLine 4, IntLine 1, IntLine 200, IntLine 1, IntLine 8000000, IntLine 1,
         IntLine 1, IntLine 10, IntLine 2, IntLine 5, IntLine 1]) =
     (Inr (), \<lparr>inp = [], out = [Print MsgTitle, Print MsgNote, Print MsgBeamProperties,
        Ask AskLength, Ask AskLengthUnits, Ask AskE, Ask AskEUnits, Ask AskI, Ask AskIUnits,
        Print MsgLoadingProperties, Ask AskLoadType, Ask AskP, Ask AskPUnits,
        Ask AskPosition, Ask AskPositionUnits, Print MsgInvalidPosition]\<rparr>) \<and>
   list_all (\<lambda>e. \<not> analysis_output e)
     (out (snd (main (console [IntLine 4, IntLine 1, IntLine 200, IntLine 1, IntLine 8000000,
         IntLine 1, IntLine 1, IntLine 10, IntLine 2, IntLine 5, IntLine 1]))))"
proof -
  let ?ls = "[IntLine 4, IntLine 1, IntLine 200, IntLine 1, IntLine 8000000, IntLine 1,
         IntLine 1, IntLine 10, IntLine 2, IntLine 5, IntLine 1]"
  have run: "main (console ?ls) =
     (Inr (), \<lparr>inp = [], out = [Print MsgTitle, Print MsgNote, Print MsgBeamProperties,
        Ask AskLength, Ask AskLengthUnits, Ask AskE, Ask AskEUnits, Ask AskI, Ask AskIUnits,
        Print MsgLoadingProperties, Ask AskLoadType, Ask AskP, Ask AskPUnits,
        Ask AskPosition, Ask AskPositionUnits, Print MsgInvalidPosition]\<rparr>)"
    by (simp add: main_def main_point_load_def point_load_analysis_def console_def
        io_bind_def io_then_def io_return_def print_def number_def emit_def choice_input_def
        positive_float_def float_input_def convert_length_def convert_E_def convert_I_def
        convert_load_def LIMIT_of_def)
  note inst = invalid_position_aborts [of 5 4 10000 "200 * 10 ^ 9" "8 / 10 ^ 6" 1 16
      "console [IntLine 10, IntLine 2, IntLine 5000, IntLine 2, OtherLine]"
      "IntLine 10" 2 "IntLine 5000" 2 "[OtherLine]" 10 5000 ?ls]
  have pre: "inp (console [IntLine 10, IntLine 2, IntLine 5000, IntLine 2, OtherLine]) =
      IntLine 10 # IntLine 2 # IntLine 5000 # IntLine 2 # [OtherLine] \<and>
    py_float (IntLine 10) = Inr 10 \<and> convert_load 10 2 = Some 10000 \<and>
    py_float (IntLine 5000) = Inr 5000 \<and> convert_length 5000 2 = Some 5 \<and>
    \<not> ((0::real) < 5 \<and> (5::real) < 4)"
    by (simp add: console_def convert_load_def convert_length_def)
  have rep: "Print MsgInvalidPosition \<in> set (out (snd (main (console ?ls))))"
    by (simp add: run)
  from inst pre rep show ?thesis
    by (simp add: run [unfolded console_def] list_all_iff console_def emit_def)
qed

end
